theory Spec2Isabelle
  imports Complex_Main
begin

section \<open>The storm simulation: data model\<close>

text \<open>
  The program is \<^verbatim>\<open>storm_simulation.py\<close>: an engine \<^verbatim>\<open>Storm\<close> that owns a
  \<^verbatim>\<open>StormState\<close> vector and drives it through the phases BREWING, THRESHOLD,
  FULL_STORM and END.

  Numbers: every Python \<^verbatim>\<open>float\<close> is modelled as an exact \<open>real\<close>, so \<open>+\<close>, \<open>-\<close>,
  \<open>*\<close> and \<open>/\<close> are the exact operations and the decimal literals of the source are the
  decimal fractions they denote. The rounding of binary64 arithmetic is not part of the
  model. \<^verbatim>\<open>math.sin\<close> is the real sine. Python's \<^verbatim>\<open>int\<close> is \<open>int\<close>.
\<close>

datatype Phase = BREWING | THRESHOLD | FULL_STORM | END

record StormState =
  temperature :: real
  pressure :: real
  wind_speed :: real
  wind_direction :: real
  wind_instability :: real
  humidity :: real
  soil_temperature :: real
  shadow_density :: real
  petrichor_detected :: bool
  lightning_events :: int
  thunder_delay :: real
  rain_sound_detected :: bool
  rain_intensity :: real
  downdraft_force :: real
  lightning_frequency :: real
  turbulence :: real
  rain_particle_density :: real

text \<open>The dictionary \<^verbatim>\<open>self.constants\<close>: built once in \<^verbatim>\<open>__init__\<close>, read with
  literal keys only and never written, so it is a record with one field per key.\<close>

record constants =
  brew_target_temp :: real
  brew_temp_drop :: real
  brew_pressure_drop :: real
  brew_shadow_gain :: real
  brew_wind_gain :: real
  brew_humidity_gain :: real
  petrichor_humidity :: real
  petrichor_soil :: real
  brew_pressure_threshold :: real
  brew_wind_instability_threshold :: real
  brew_shadow_threshold :: real
  threshold_lightning_charge_gain :: real
  threshold_lightning_threshold :: real
  threshold_wind_gain :: real
  threshold_humidity_gain :: real
  threshold_saturation :: real
  threshold_turbulent_wind :: real
  threshold_min_lightning :: int
  threshold_rain_distance_drop :: real
  full_vertical_burst :: real
  full_downpour_intensity :: real
  full_frenzy_frequency :: real
  full_turbulence_peak :: real
  full_particle_density_peak :: real
  silence_decay :: real

record Storm =
  state :: Phase
  full_stage :: string
  iteration :: int
  constants :: constants
  charge :: real
  lightning_distance :: real
  sound_speed :: real
  s :: StormState

datatype error = ZeroDivisionError

subsection \<open>The pseudo-random source\<close>

text \<open>
  The module \<^verbatim>\<open>random\<close> holds one generator shared by the whole process. Its state is
  the seed it was last given and the number of draws made since; \<open>mt k i\<close> is draw
  number \<open>i\<close> of the generator seeded with \<open>k\<close>, a parameter of the model
  (\<^verbatim>\<open>random.random()\<close> promises a value in \<open>[0, 1)\<close>).
\<close>

record rng =
  seed :: nat
  drawn :: nat

definition random_seed :: "nat \<Rightarrow> rng \<Rightarrow> rng" where
  "random_seed k g = \<lparr>seed = k, drawn = 0\<rparr>"

definition random_random :: "(nat \<Rightarrow> nat \<Rightarrow> real) \<Rightarrow> rng \<Rightarrow> real \<times> rng" where
  "random_random mt g = (mt (seed g) (drawn g), g\<lparr>drawn := drawn g + 1\<rparr>)"

text \<open>\<^verbatim>\<open>random.uniform(a, b)\<close> is \<^verbatim>\<open>a + (b - a) * random()\<close>.\<close>

definition random_uniform :: "(nat \<Rightarrow> nat \<Rightarrow> real) \<Rightarrow> real \<Rightarrow> real \<Rightarrow> rng \<Rightarrow> real \<times> rng" where
  "random_uniform mt a b g = (let (r, g) = random_random mt g in (a + (b - a) * r, g))"

subsection \<open>Arithmetic of the source\<close>

text \<open>\<^verbatim>\<open>x % m\<close> on floats, for a positive \<open>m\<close>: the remainder with the sign of \<open>m\<close>.
  For \<open>x \<ge> 0\<close> it is C's \<^verbatim>\<open>fmod\<close>, which is exact; the engine only ever takes the
  remainder of a sum that is at least 6. (For a negative \<open>x\<close> Python adds \<open>m\<close> to a
  negative remainder, and that addition rounds; nothing below is stated for that case.)\<close>

definition fmod_py :: "real \<Rightarrow> real \<Rightarrow> real" where
  "fmod_py x m = x - m * of_int \<lfloor>x / m\<rfloor>"

text \<open>\<^verbatim>\<open>a / b\<close> raises \<^verbatim>\<open>ZeroDivisionError\<close> when \<open>b\<close> is zero.\<close>

definition py_div :: "real \<Rightarrow> real \<Rightarrow> error + real" where
  "py_div a b = (if b = 0 then Inl ZeroDivisionError else Inr (a / b))"

section \<open>The engine\<close>

definition storm_constants :: constants where
  "storm_constants = \<lparr>
     brew_target_temp = 12.0,
     brew_temp_drop = 0.3,
     brew_pressure_drop = 0.5,
     brew_shadow_gain = 0.05,
     brew_wind_gain = 0.2,
     brew_humidity_gain = 1.5,
     petrichor_humidity = 68.0,
     petrichor_soil = 18.0,
     brew_pressure_threshold = 990.0,
     brew_wind_instability_threshold = 5.0,
     brew_shadow_threshold = 0.9,
     threshold_lightning_charge_gain = 8.0,
     threshold_lightning_threshold = 24.0,
     threshold_wind_gain = 1.1,
     threshold_humidity_gain = 2.2,
     threshold_saturation = 98.0,
     threshold_turbulent_wind = 18.0,
     threshold_min_lightning = 4,
     threshold_rain_distance_drop = 1.7,
     full_vertical_burst = 35.0,
     full_downpour_intensity = 60.0,
     full_frenzy_frequency = 12.0,
     full_turbulence_peak = 40.0,
     full_particle_density_peak = 85.0,
     silence_decay = 4.5\<rparr>"

text \<open>The fields that \<^verbatim>\<open>Storm.__init__\<close> assigns.\<close>

definition Storm_init :: Storm where
  "Storm_init = \<lparr>
     state = BREWING,
     full_stage = ''impact'',
     iteration = 0,
     constants = storm_constants,
     charge = 0.0,
     lightning_distance = 18.0,
     sound_speed = 0.34,
     s = \<lparr>
       temperature = 20.0,
       pressure = 1012.0,
       wind_speed = 0.0,
       wind_direction = 0.0,
       wind_instability = 0.0,
       humidity = 45.0,
       soil_temperature = 20.0,
       shadow_density = 0.1,
       petrichor_detected = False,
       lightning_events = 0,
       thunder_delay = 0.0,
       rain_sound_detected = False,
       rain_intensity = 0.0,
       downdraft_force = 0.0,
       lightning_frequency = 0.0,
       turbulence = 0.0,
       rain_particle_density = 0.0\<rparr>\<rparr>"

text \<open>\<^verbatim>\<open>Storm()\<close>, called when the shared generator is in state \<open>g\<close>: the constructor
  calls \<^verbatim>\<open>random.seed(0)\<close>.\<close>

definition Storm_new :: "rng \<Rightarrow> rng \<times> Storm" where
  "Storm_new g = (random_seed 0 g, Storm_init)"

definition brewing_complete :: "Storm \<Rightarrow> bool" where
  "brewing_complete w \<longleftrightarrow>
     temperature (s w) \<le> brew_target_temp (constants w)
     \<and> pressure (s w) \<le> brew_pressure_threshold (constants w)
     \<and> wind_instability (s w) \<ge> brew_wind_instability_threshold (constants w)
     \<and> shadow_density (s w) \<ge> brew_shadow_threshold (constants w)
     \<and> petrichor_detected (s w)"

text \<open>The phase routines assign fields in sequence. An assignment
  \<^verbatim>\<open>self.s.f = e\<close> whose right-hand side reads \<^verbatim>\<open>self.s.f\<close> is the record's update
  function \<open>f_update (\<lambda>x. e) v\<close> (the new value computed from the current one \<open>x\<close>);
  \<^verbatim>\<open>self.s.f += e\<close> is \<open>f_update (\<lambda>x. x + e) v\<close>.\<close>

definition brewing_phase :: "Storm \<Rightarrow> Storm" where
  "brewing_phase w =
    (let c = constants w; v = s w;
         v = temperature_update (\<lambda>x. max (brew_target_temp c) (x - brew_temp_drop c)) v;
         v = pressure_update (\<lambda>x. max (brew_pressure_threshold c) (x - brew_pressure_drop c)) v;
         v = wind_instability_update (\<lambda>x. x + brew_wind_gain c) v;
         v = wind_speed_update (\<lambda>x. min (x + brew_wind_gain c) (threshold_turbulent_wind c)) v;
         v = wind_direction_update (\<lambda>x. fmod_py (x + 7.0 + sin (of_int (iteration w))) 360) v;
         v = humidity_update (\<lambda>x. min 100.0 (x + brew_humidity_gain c)) v;
         v = soil_temperature_update (\<lambda>x. max 10.0 (x - 0.1)) v;
         v = shadow_density_update (\<lambda>x. min 1.0 (x + brew_shadow_gain c)) v;
         v = (if \<not> petrichor_detected v
              then (if humidity v \<ge> petrichor_humidity c \<and> soil_temperature v \<le> petrichor_soil c
                    then v\<lparr>petrichor_detected := True\<rparr> else v)
              else v);
         w = w\<lparr>s := v\<rparr>
     in if brewing_complete w then w\<lparr>state := THRESHOLD\<rparr> else w)"

definition threshold_complete :: "Storm \<Rightarrow> bool" where
  "threshold_complete w \<longleftrightarrow>
     lightning_events (s w) \<ge> threshold_min_lightning (constants w)
     \<and> thunder_delay (s w) \<le> 20.0
     \<and> wind_speed (s w) \<ge> threshold_turbulent_wind (constants w)
     \<and> rain_sound_detected (s w)
     \<and> humidity (s w) \<ge> threshold_saturation (constants w)"

definition threshold_phase :: "(nat \<Rightarrow> nat \<Rightarrow> real) \<Rightarrow> rng \<times> Storm \<Rightarrow> error + rng \<times> Storm" where
  "threshold_phase mt gw =
    (let (g, w) = gw; c = constants w;
         w = charge_update (\<lambda>x. x + threshold_lightning_charge_gain c) w;
         w = (if charge w \<ge> threshold_lightning_threshold c
              then charge_update (\<lambda>x. x - threshold_lightning_threshold c * 0.7)
                     (s_update (lightning_events_update (\<lambda>n. n + 1)) w)
              else w);
         w = s_update (wind_speed_update (\<lambda>x. x + threshold_wind_gain c)) w;
         (r, g) = random_random mt g;
         w = s_update (wind_direction_update (\<lambda>x. fmod_py (x + 23.0 + r) 360)) w;
         w = s_update (wind_instability_update (\<lambda>x. x + 0.8)) w;
         w = lightning_distance_update (\<lambda>x. max 1.0 (x - threshold_rain_distance_drop c)) w
     in case py_div (lightning_distance w) (sound_speed w) of
          Inl e \<Rightarrow> Inl e
        | Inr d \<Rightarrow>
           (let w = s_update (\<lambda>v. v\<lparr>thunder_delay := d\<rparr>) w;
                w = (if lightning_distance w \<le> 8.0
                     then s_update (\<lambda>v. v\<lparr>rain_sound_detected := True\<rparr>) w else w);
                w = s_update (humidity_update (\<lambda>x. min 100.0 (x + threshold_humidity_gain c))) w
            in Inr (g, if threshold_complete w then w\<lparr>state := FULL_STORM\<rparr> else w)))"

text \<open>\<^verbatim>\<open>_full_storm_phase\<close> is one chain of \<^verbatim>\<open>if\<close>/\<^verbatim>\<open>elif\<close> on the sub-stage; each
  branch is given here as a definition of its own, and \<open>full_storm_phase\<close> is the chain.\<close>

definition full_storm_impact :: "Storm \<Rightarrow> Storm" where
  "full_storm_impact w =
    (let c = constants w; v = s w;
         v = rain_intensity_update (\<lambda>x. x + full_vertical_burst c) v;
         v = temperature_update (\<lambda>x. max 5.0 (x - 1.8)) v;
         v = downdraft_force_update (\<lambda>x. x + 6.0) v;
         w = w\<lparr>s := v\<rparr>
     in if rain_intensity v \<ge> full_vertical_burst c then w\<lparr>full_stage := ''downpour''\<rparr> else w)"

definition full_storm_downpour :: "(nat \<Rightarrow> nat \<Rightarrow> real) \<Rightarrow> rng \<times> Storm \<Rightarrow> rng \<times> Storm" where
  "full_storm_downpour mt gw =
    (let (g, w) = gw; c = constants w; v = s w;
         v = rain_intensity_update (\<lambda>x. min (full_downpour_intensity c) (x + 5.0)) v;
         (r, g) = random_random mt g;
         v = lightning_frequency_update (\<lambda>x. max x (4.0 + r)) v;
         v = wind_speed_update (\<lambda>x. min 40.0 (x + 2.0)) v;
         v = turbulence_update (\<lambda>x. x + 3.5) v;
         w = w\<lparr>s := v\<rparr>
     in (g, if rain_intensity v \<ge> full_downpour_intensity c \<and> turbulence v \<ge> 10.0
            then w\<lparr>full_stage := ''frenzy''\<rparr> else w))"

definition full_storm_frenzy :: "(nat \<Rightarrow> nat \<Rightarrow> real) \<Rightarrow> rng \<times> Storm \<Rightarrow> rng \<times> Storm" where
  "full_storm_frenzy mt gw =
    (let (g, w) = gw; c = constants w; v = s w;
         (u, g) = random_uniform mt 1.5 3.0 g;
         v = lightning_frequency_update (\<lambda>x. min (full_frenzy_frequency c) (x + u)) v;
         v = turbulence_update (\<lambda>x. min (full_turbulence_peak c) (x + 4.2)) v;
         v = rain_particle_density_update (\<lambda>x. min (full_particle_density_peak c) (x + 9.0)) v;
         v = rain_intensity_update (\<lambda>x. min 80.0 (x + 4.0)) v;
         w = w\<lparr>s := v\<rparr>
     in (g, if lightning_frequency v \<ge> full_frenzy_frequency c \<and> turbulence v \<ge> 24.0
            then w\<lparr>full_stage := ''chaos''\<rparr> else w))"

definition full_storm_chaos :: "(nat \<Rightarrow> nat \<Rightarrow> real) \<Rightarrow> rng \<times> Storm \<Rightarrow> rng \<times> Storm" where
  "full_storm_chaos mt gw =
    (let (g, w) = gw; c = constants w; v = s w;
         v = turbulence_update (\<lambda>x. min (full_turbulence_peak c) (x + 2.0)) v;
         v = rain_particle_density_update (\<lambda>x. min (full_particle_density_peak c) (x + 4.0)) v;
         v = wind_speed_update (\<lambda>x. min 50.0 (x + 1.5)) v;
         (u, g) = random_uniform mt 0.0 2.5 g;
         v = lightning_frequency_update (\<lambda>x. max x (10.0 + u)) v;
         w = w\<lparr>s := v\<rparr>
     in (g, if turbulence v \<ge> full_turbulence_peak c
               \<and> rain_particle_density v \<ge> full_particle_density_peak c
            then w\<lparr>full_stage := ''silence''\<rparr> else w))"

definition full_storm_silence :: "Storm \<Rightarrow> Storm" where
  "full_storm_silence w =
    (let c = constants w; v = s w;
         v = rain_intensity_update (\<lambda>x. max 0.0 (x - silence_decay c)) v;
         v = wind_speed_update (\<lambda>x. max 0.0 (x - silence_decay c)) v;
         v = turbulence_update (\<lambda>x. max 0.0 (x - silence_decay c)) v;
         v = lightning_frequency_update (\<lambda>x. max 0.0 (x - silence_decay c)) v;
         v = rain_particle_density_update (\<lambda>x. max 0.0 (x - silence_decay c)) v;
         v = downdraft_force_update (\<lambda>x. max 0.0 (x - silence_decay c)) v;
         w = w\<lparr>s := v\<rparr>
     in if list_all (\<lambda>val. val \<le> 0.1)
            [rain_intensity v, wind_speed v, turbulence v, lightning_frequency v,
             rain_particle_density v, downdraft_force v]
        then w\<lparr>state := END\<rparr> else w)"

definition full_storm_phase :: "(nat \<Rightarrow> nat \<Rightarrow> real) \<Rightarrow> rng \<times> Storm \<Rightarrow> rng \<times> Storm" where
  "full_storm_phase mt gw =
    (if full_stage (snd gw) = ''impact'' then (fst gw, full_storm_impact (snd gw))
     else if full_stage (snd gw) = ''downpour'' then full_storm_downpour mt gw
     else if full_stage (snd gw) = ''frenzy'' then full_storm_frenzy mt gw
     else if full_stage (snd gw) = ''chaos'' then full_storm_chaos mt gw
     else if full_stage (snd gw) = ''silence'' then (fst gw, full_storm_silence (snd gw))
     else gw)"

subsection \<open>The loop of \<^verbatim>\<open>run\<close>\<close>

text \<open>One pass through the body of the \<^verbatim>\<open>while\<close> loop: the dispatch on the phase,
  then \<^verbatim>\<open>self.iteration += 1\<close>.\<close>

definition run_body :: "(nat \<Rightarrow> nat \<Rightarrow> real) \<Rightarrow> rng \<times> Storm \<Rightarrow> error + rng \<times> Storm" where
  "run_body mt gw =
    (case (if state (snd gw) = BREWING then Inr (fst gw, brewing_phase (snd gw))
           else if state (snd gw) = THRESHOLD then threshold_phase mt gw
           else if state (snd gw) = FULL_STORM then Inr (full_storm_phase mt gw)
           else Inr gw) of
       Inl e \<Rightarrow> Inl e
     | Inr (g, w) \<Rightarrow> Inr (g, w\<lparr>iteration := iteration w + 1\<rparr>))"

text \<open>\<^verbatim>\<open>run\<close>: the loop may not return, so its result is an \<open>option\<close>; an exception
  leaves the loop with \<open>Inl\<close>.\<close>

partial_function (option) run :: "(nat \<Rightarrow> nat \<Rightarrow> real) \<Rightarrow> rng \<times> Storm \<Rightarrow> (error + rng \<times> Storm) option" where
  "run mt gw =
    (if state (snd gw) \<noteq> END
     then (case run_body mt gw of Inl e \<Rightarrow> Some (Inl e) | Inr gw' \<Rightarrow> run mt gw')
     else Some (Inr gw))"

text \<open>The trace of the loop: \<open>steps mt n gw\<close> is the engine after \<open>n\<close> tests of the loop
  condition, each followed by the body while the phase is not END.\<close>

definition run_step :: "(nat \<Rightarrow> nat \<Rightarrow> real) \<Rightarrow> rng \<times> Storm \<Rightarrow> error + rng \<times> Storm" where
  "run_step mt gw = (if state (snd gw) \<noteq> END then run_body mt gw else Inr gw)"

fun steps :: "(nat \<Rightarrow> nat \<Rightarrow> real) \<Rightarrow> nat \<Rightarrow> rng \<times> Storm \<Rightarrow> error + rng \<times> Storm" where
  "steps mt 0 gw = Inr gw"
| "steps mt (Suc n) gw = (case run_step mt gw of Inl e \<Rightarrow> Inl e | Inr gw' \<Rightarrow> steps mt n gw')"


subsection \<open>Orders on phases and sub-stages\<close>

text \<open>The position of a phase in BREWING, THRESHOLD, FULL_STORM, END and of a sub-stage in
  impact, downpour, frenzy, chaos, silence (any other string is ranked last), and the
  successor relation of the sub-stages.\<close>

fun phase_rank :: "Phase \<Rightarrow> nat" where
  "phase_rank BREWING = 0"
| "phase_rank THRESHOLD = 1"
| "phase_rank FULL_STORM = 2"
| "phase_rank END = 3"

definition stage_rank :: "string \<Rightarrow> nat" where
  "stage_rank st =
    (if st = ''impact'' then 0 else if st = ''downpour'' then 1 else if st = ''frenzy'' then 2
     else if st = ''chaos'' then 3 else if st = ''silence'' then 4 else 5)"

definition stage_next :: "string \<Rightarrow> string \<Rightarrow> bool" where
  "stage_next a b \<longleftrightarrow>
     a = ''impact'' \<and> b = ''downpour'' \<or> a = ''downpour'' \<and> b = ''frenzy''
     \<or> a = ''frenzy'' \<and> b = ''chaos'' \<or> a = ''chaos'' \<and> b = ''silence''"

subsection \<open>A concrete stream of draws\<close>

text \<open>The stream whose every draw is \<open>0\<close>, a value \<^verbatim>\<open>random.random()\<close> can return; it is
  used where a property is evaluated on a concrete run.\<close>

definition mt_zero :: "nat \<Rightarrow> nat \<Rightarrow> real" where
  "mt_zero k i = 0"

subsection \<open>The first two phases in closed form\<close>

text \<open>What the engine is after \<open>n\<close> passes of the loop, for \<open>n\<close> up to 44 (the BREWING
  phase), as a predicate on the engine; the wind direction is left open.\<close>

definition brewing_after :: "nat \<Rightarrow> Storm \<Rightarrow> bool" where
  "brewing_after n w \<longleftrightarrow>
     state w = (if n < 44 then BREWING else THRESHOLD)
     \<and> full_stage w = ''impact'' \<and> iteration w = int n \<and> constants w = storm_constants
     \<and> charge w = 0 \<and> lightning_distance w = 18 \<and> sound_speed w = 0.34
     \<and> temperature (s w) = max 12 (20 - 0.3 * real n)
     \<and> pressure (s w) = 1012 - 0.5 * real n
     \<and> wind_speed (s w) = 0.2 * real n
     \<and> wind_instability (s w) = 0.2 * real n
     \<and> humidity (s w) = min 100 (45 + 1.5 * real n)
     \<and> soil_temperature (s w) = 20 - 0.1 * real n
     \<and> shadow_density (s w) = min 1 (0.1 + 0.05 * real n)
     \<and> petrichor_detected (s w) = (20 \<le> n)
     \<and> lightning_events (s w) = 0 \<and> thunder_delay (s w) = 0
     \<and> rain_sound_detected (s w) = False
     \<and> rain_intensity (s w) = 0 \<and> downdraft_force (s w) = 0
     \<and> lightning_frequency (s w) = 0 \<and> turbulence (s w) = 0
     \<and> rain_particle_density (s w) = 0"

text \<open>What the generator and the engine are after \<open>44 + k\<close> passes of the loop, for \<open>k\<close>
  up to 10 (the THRESHOLD phase): the charge and the number of lightning events are
  tabulated, the wind direction is left open.\<close>

definition threshold_after :: "nat \<Rightarrow> rng \<times> Storm \<Rightarrow> bool" where
  "threshold_after k gw \<longleftrightarrow>
     seed (fst gw) = 0 \<and> drawn (fst gw) = k
     \<and> state (snd gw) = (if k < 10 then THRESHOLD else FULL_STORM)
     \<and> full_stage (snd gw) = ''impact'' \<and> iteration (snd gw) = 44 + int k
     \<and> constants (snd gw) = storm_constants
     \<and> charge (snd gw) = [0, 8, 16, 7.2, 15.2, 23.2, 14.4, 22.4, 13.6, 21.6, 12.8] ! k
     \<and> lightning_events (s (snd gw)) = [0, 0, 0, 1, 1, 1, 2, 2, 3, 3, 4] ! k
     \<and> lightning_distance (snd gw) = 18 - 1.7 * real k
     \<and> sound_speed (snd gw) = 0.34
     \<and> temperature (s (snd gw)) = 12 \<and> pressure (s (snd gw)) = 990
     \<and> wind_speed (s (snd gw)) = 8.8 + 1.1 * real k
     \<and> wind_instability (s (snd gw)) = 8.8 + 0.8 * real k
     \<and> humidity (s (snd gw)) = 100 \<and> soil_temperature (s (snd gw)) = 15.6
     \<and> shadow_density (s (snd gw)) = 1 \<and> petrichor_detected (s (snd gw)) = True
     \<and> thunder_delay (s (snd gw)) = (if k = 0 then 0 else (18 - 1.7 * real k) / 0.34)
     \<and> rain_sound_detected (s (snd gw)) = (6 \<le> k)
     \<and> rain_intensity (s (snd gw)) = 0 \<and> downdraft_force (s (snd gw)) = 0
     \<and> lightning_frequency (s (snd gw)) = 0 \<and> turbulence (s (snd gw)) = 0
     \<and> rain_particle_density (s (snd gw)) = 0"

subsection \<open>Invariant and reachability of the end\<close>



text \<open>The loop started on \<open>gw\<close> comes to the phase END after some number of passes.\<close>

definition reaches_END :: "(nat \<Rightarrow> nat \<Rightarrow> real) \<Rightarrow> rng \<times> Storm \<Rightarrow> bool" where
  "reaches_END mt gw \<longleftrightarrow> (\<exists>n gw'. steps mt n gw = Inr gw' \<and> state (snd gw') = END)"


section \<open>Properties\<close>

subsection \<open>Traces\<close>

lemma stage_next_rank: "stage_next a b \<Longrightarrow> stage_rank b = Suc (stage_rank a)"
  unfolding stage_next_def by (elim disjE conjE; simp add: stage_rank_def)

lemma steps_add:
  "steps mt (n + k) gw = (case steps mt n gw of Inl e \<Rightarrow> Inl e | Inr y \<Rightarrow> steps mt k y)"
  by (induction n arbitrary: gw) (auto split: sum.splits)

lemma steps_Suc_end:
  "steps mt (Suc n) gw = (case steps mt n gw of Inl e \<Rightarrow> Inl e | Inr y \<Rightarrow> run_step mt y)"
  using steps_add [of mt n 1 gw] by (auto split: sum.splits)

subsection \<open>What each phase routine leaves alone\<close>

lemma brewing_phase_frame:
  "F (constants (brewing_phase w)) = F (constants w)"
  "sound_speed (brewing_phase w) = sound_speed w"
  "full_stage (brewing_phase w) = full_stage w"
  "iteration (brewing_phase w) = iteration w"
  "charge (brewing_phase w) = charge w"
  "lightning_distance (brewing_phase w) = lightning_distance w"
  "rain_sound_detected (s (brewing_phase w)) = rain_sound_detected (s w)"
  by (simp_all add: brewing_phase_def Let_def)

lemma brewing_phase_state:
  "state (brewing_phase w) = state w \<or> state (brewing_phase w) = THRESHOLD"
  by (simp add: brewing_phase_def Let_def)

lemma brewing_phase_petrichor:
  "petrichor_detected (s w) \<Longrightarrow> petrichor_detected (s (brewing_phase w))"
  by (simp add: brewing_phase_def Let_def)

lemma threshold_phase_Inl:
  "sound_speed w = 0 \<Longrightarrow> threshold_phase mt (g, w) = Inl ZeroDivisionError"
  by (simp add: threshold_phase_def Let_def py_div_def split: prod.split)

lemma threshold_phase_Inr:
  "sound_speed w \<noteq> 0 \<Longrightarrow> \<exists>y. threshold_phase mt (g, w) = Inr y"
  by (simp add: threshold_phase_def Let_def py_div_def split: prod.split)

lemma threshold_phase_frame:
  assumes "threshold_phase mt (g, w) = Inr (g', w')"
  shows "F (constants w') = F (constants w)" "sound_speed w' = sound_speed w"
    "full_stage w' = full_stage w" "iteration w' = iteration w"
    "petrichor_detected (s w') = petrichor_detected (s w)"
    "seed g' = seed g"
proof -
  have nz: "sound_speed w \<noteq> 0"
    using assms threshold_phase_Inl [of w mt g] by auto
  have eq: "(g', w') = projr (threshold_phase mt (g, w))"
    using assms by simp
  have "F (constants (snd (projr (threshold_phase mt (g, w))))) = F (constants w)"
    using nz by (simp add: threshold_phase_def Let_def py_div_def split: prod.split)
  then show "F (constants w') = F (constants w)" by (simp flip: eq)
  have "sound_speed (snd (projr (threshold_phase mt (g, w)))) = sound_speed w"
    using nz by (simp add: threshold_phase_def Let_def py_div_def split: prod.split)
  then show "sound_speed w' = sound_speed w" by (simp flip: eq)
  have "full_stage (snd (projr (threshold_phase mt (g, w)))) = full_stage w"
    using nz by (simp add: threshold_phase_def Let_def py_div_def split: prod.split)
  then show "full_stage w' = full_stage w" by (simp flip: eq)
  have "iteration (snd (projr (threshold_phase mt (g, w)))) = iteration w"
    using nz by (simp add: threshold_phase_def Let_def py_div_def split: prod.split)
  then show "iteration w' = iteration w" by (simp flip: eq)
  have "petrichor_detected (s (snd (projr (threshold_phase mt (g, w))))) = petrichor_detected (s w)"
    using nz by (simp add: threshold_phase_def Let_def py_div_def split: prod.split)
  then show "petrichor_detected (s w') = petrichor_detected (s w)" by (simp flip: eq)
  have "seed (fst (projr (threshold_phase mt (g, w)))) = seed g"
    using nz by (simp add: threshold_phase_def Let_def py_div_def random_random_def split: prod.split)
  then show "seed g' = seed g" by (simp flip: eq)
qed

lemma threshold_phase_state:
  assumes "threshold_phase mt (g, w) = Inr (g', w')"
  shows "state w' = state w \<or> state w' = FULL_STORM"
proof -
  have nz: "sound_speed w \<noteq> 0"
    using assms threshold_phase_Inl [of w mt g] by auto
  have eq: "(g', w') = projr (threshold_phase mt (g, w))"
    using assms by simp
  have "state (snd (projr (threshold_phase mt (g, w)))) = state w
      \<or> state (snd (projr (threshold_phase mt (g, w)))) = FULL_STORM"
    using nz by (simp add: threshold_phase_def Let_def py_div_def split: prod.split)
  then show ?thesis by (simp flip: eq)
qed

lemma threshold_phase_rain_sound:
  assumes "threshold_phase mt (g, w) = Inr (g', w')" and "rain_sound_detected (s w)"
  shows "rain_sound_detected (s w')"
proof -
  have nz: "sound_speed w \<noteq> 0"
    using assms threshold_phase_Inl [of w mt g] by auto
  have eq: "(g', w') = projr (threshold_phase mt (g, w))"
    using assms by simp
  have "rain_sound_detected (s (snd (projr (threshold_phase mt (g, w)))))"
    using nz assms(2) by (simp add: threshold_phase_def Let_def py_div_def split: prod.split)
  then show ?thesis by (simp flip: eq)
qed

lemma full_storm_impact_frame:
  "F (constants (full_storm_impact w)) = F (constants w)"
  "sound_speed (full_storm_impact w) = sound_speed w"
  "iteration (full_storm_impact w) = iteration w"
  "state (full_storm_impact w) = state w"
  "petrichor_detected (s (full_storm_impact w)) = petrichor_detected (s w)"
  "rain_sound_detected (s (full_storm_impact w)) = rain_sound_detected (s w)"
  "full_stage (full_storm_impact w) = full_stage w \<or> full_stage (full_storm_impact w) = ''downpour''"
  by (simp_all add: full_storm_impact_def Let_def)

lemma full_storm_downpour_frame:
  "F (constants (snd (full_storm_downpour mt (g, w)))) = F (constants w)"
  "sound_speed (snd (full_storm_downpour mt (g, w))) = sound_speed w"
  "iteration (snd (full_storm_downpour mt (g, w))) = iteration w"
  "state (snd (full_storm_downpour mt (g, w))) = state w"
  "petrichor_detected (s (snd (full_storm_downpour mt (g, w)))) = petrichor_detected (s w)"
  "rain_sound_detected (s (snd (full_storm_downpour mt (g, w)))) = rain_sound_detected (s w)"
  "full_stage (snd (full_storm_downpour mt (g, w))) = full_stage w
   \<or> full_stage (snd (full_storm_downpour mt (g, w))) = ''frenzy''"
  "seed (fst (full_storm_downpour mt (g, w))) = seed g"
  by (simp_all add: full_storm_downpour_def Let_def random_random_def split: prod.split)

lemma full_storm_frenzy_frame:
  "F (constants (snd (full_storm_frenzy mt (g, w)))) = F (constants w)"
  "sound_speed (snd (full_storm_frenzy mt (g, w))) = sound_speed w"
  "iteration (snd (full_storm_frenzy mt (g, w))) = iteration w"
  "state (snd (full_storm_frenzy mt (g, w))) = state w"
  "petrichor_detected (s (snd (full_storm_frenzy mt (g, w)))) = petrichor_detected (s w)"
  "rain_sound_detected (s (snd (full_storm_frenzy mt (g, w)))) = rain_sound_detected (s w)"
  "full_stage (snd (full_storm_frenzy mt (g, w))) = full_stage w
   \<or> full_stage (snd (full_storm_frenzy mt (g, w))) = ''chaos''"
  "seed (fst (full_storm_frenzy mt (g, w))) = seed g"
  by (simp_all add: full_storm_frenzy_def Let_def random_random_def random_uniform_def
      split: prod.split)

lemma full_storm_chaos_frame:
  "F (constants (snd (full_storm_chaos mt (g, w)))) = F (constants w)"
  "sound_speed (snd (full_storm_chaos mt (g, w))) = sound_speed w"
  "iteration (snd (full_storm_chaos mt (g, w))) = iteration w"
  "state (snd (full_storm_chaos mt (g, w))) = state w"
  "petrichor_detected (s (snd (full_storm_chaos mt (g, w)))) = petrichor_detected (s w)"
  "rain_sound_detected (s (snd (full_storm_chaos mt (g, w)))) = rain_sound_detected (s w)"
  "full_stage (snd (full_storm_chaos mt (g, w))) = full_stage w
   \<or> full_stage (snd (full_storm_chaos mt (g, w))) = ''silence''"
  "seed (fst (full_storm_chaos mt (g, w))) = seed g"
  by (simp_all add: full_storm_chaos_def Let_def random_random_def random_uniform_def
      split: prod.split)

lemma full_storm_silence_frame:
  "F (constants (full_storm_silence w)) = F (constants w)"
  "sound_speed (full_storm_silence w) = sound_speed w"
  "iteration (full_storm_silence w) = iteration w"
  "state (full_storm_silence w) = state w \<or> state (full_storm_silence w) = END"
  "petrichor_detected (s (full_storm_silence w)) = petrichor_detected (s w)"
  "rain_sound_detected (s (full_storm_silence w)) = rain_sound_detected (s w)"
  "full_stage (full_storm_silence w) = full_stage w"
  by (simp_all add: full_storm_silence_def Let_def)

lemmas full_storm_stage_frame =
  full_storm_impact_frame full_storm_downpour_frame full_storm_frenzy_frame
  full_storm_chaos_frame full_storm_silence_frame

lemma full_storm_phase_frame:
  "F (constants (snd (full_storm_phase mt (g, w)))) = F (constants w)"
  "sound_speed (snd (full_storm_phase mt (g, w))) = sound_speed w"
  "iteration (snd (full_storm_phase mt (g, w))) = iteration w"
  "petrichor_detected (s (snd (full_storm_phase mt (g, w)))) = petrichor_detected (s w)"
  "rain_sound_detected (s (snd (full_storm_phase mt (g, w)))) = rain_sound_detected (s w)"
  "seed (fst (full_storm_phase mt (g, w))) = seed g"
  by (simp_all add: full_storm_phase_def full_storm_stage_frame)

lemma full_storm_phase_state:
  "state (snd (full_storm_phase mt (g, w))) = state w
   \<or> state (snd (full_storm_phase mt (g, w))) = END"
  using full_storm_silence_frame(4) [of w]
  by (simp add: full_storm_phase_def full_storm_stage_frame)

lemma full_storm_phase_full_stage:
  "full_stage (snd (full_storm_phase mt (g, w))) = full_stage w
   \<or> stage_next (full_stage w) (full_stage (snd (full_storm_phase mt (g, w))))"
  using full_storm_impact_frame(7) [of w] full_storm_downpour_frame(7) [of mt g w]
    full_storm_frenzy_frame(7) [of mt g w] full_storm_chaos_frame(7) [of mt g w]
  by (auto simp add: full_storm_phase_def full_storm_silence_frame(7) stage_next_def)

subsection \<open>One pass of the loop\<close>

lemma run_step_END: "state w = END \<Longrightarrow> run_step mt (g, w) = Inr (g, w)"
  by (simp add: run_step_def)

lemma run_step_BREWING:
  "state w = BREWING \<Longrightarrow>
   run_step mt (g, w) = Inr (g, (brewing_phase w)\<lparr>iteration := iteration (brewing_phase w) + 1\<rparr>)"
  by (simp add: run_step_def run_body_def)

lemma run_step_THRESHOLD:
  "state w = THRESHOLD \<Longrightarrow>
   run_step mt (g, w) =
     (case threshold_phase mt (g, w) of Inl e \<Rightarrow> Inl e
      | Inr (g', w') \<Rightarrow> Inr (g', w'\<lparr>iteration := iteration w' + 1\<rparr>))"
  by (simp add: run_step_def run_body_def)

lemma run_step_FULL_STORM:
  "state w = FULL_STORM \<Longrightarrow>
   run_step mt (g, w) =
     Inr (fst (full_storm_phase mt (g, w)),
          (snd (full_storm_phase mt (g, w)))
            \<lparr>iteration := iteration (snd (full_storm_phase mt (g, w))) + 1\<rparr>)"
  by (simp add: run_step_def run_body_def split: prod.split)

text \<open>What one pass of the loop does to the phase, the sub-stage, the two latches and
  the parts of the engine that are never written.\<close>

lemma run_step_props:
  assumes "run_step mt (g, w) = Inr (g', w')"
  shows "phase_rank (state w) \<le> phase_rank (state w')"
    and "phase_rank (state w') \<le> Suc (phase_rank (state w))"
    and "full_stage w' = full_stage w \<or> stage_next (full_stage w) (full_stage w')"
    and "petrichor_detected (s w) \<longrightarrow> petrichor_detected (s w')"
    and "rain_sound_detected (s w) \<longrightarrow> rain_sound_detected (s w')"
    and "constants w' = constants w"
    and "sound_speed w' = sound_speed w"
    and "seed g' = seed g"
proof -
  consider (B) "state w = BREWING" | (T) "state w = THRESHOLD"
    | (F) "state w = FULL_STORM" | (E) "state w = END"
    by (cases "state w") auto
  then have "phase_rank (state w) \<le> phase_rank (state w')
      \<and> phase_rank (state w') \<le> Suc (phase_rank (state w))
      \<and> (full_stage w' = full_stage w \<or> stage_next (full_stage w) (full_stage w'))
      \<and> (petrichor_detected (s w) \<longrightarrow> petrichor_detected (s w'))
      \<and> (rain_sound_detected (s w) \<longrightarrow> rain_sound_detected (s w'))
      \<and> constants w' = constants w \<and> sound_speed w' = sound_speed w \<and> seed g' = seed g"
  proof cases
    case B
    have eq: "g' = g" "w' = (brewing_phase w)\<lparr>iteration := iteration (brewing_phase w) + 1\<rparr>"
      using assms run_step_BREWING [OF B, of mt g] by simp_all
    show ?thesis
      using brewing_phase_state [of w] brewing_phase_petrichor [of w]
        brewing_phase_frame(1) [of "\<lambda>x. x" w]
      by (auto simp: eq B brewing_phase_frame)
  next
    case T
    obtain w'' where th: "threshold_phase mt (g, w) = Inr (g', w'')"
      and eq: "w' = w''\<lparr>iteration := iteration w'' + 1\<rparr>"
      using assms run_step_THRESHOLD [OF T, of mt g] by (auto split: sum.splits)
    show ?thesis
      using threshold_phase_state [OF th] threshold_phase_rain_sound [OF th]
        threshold_phase_frame [OF th] threshold_phase_frame(1) [OF th, of "\<lambda>x. x"]
      by (auto simp: eq T)
  next
    case F
    have eq: "g' = fst (full_storm_phase mt (g, w))"
      "w' = (snd (full_storm_phase mt (g, w)))
            \<lparr>iteration := iteration (snd (full_storm_phase mt (g, w))) + 1\<rparr>"
      using assms run_step_FULL_STORM [OF F, of mt g] by simp_all
    show ?thesis
      using full_storm_phase_state [of mt g w] full_storm_phase_full_stage [of mt g w]
        full_storm_phase_frame(1) [of "\<lambda>x. x" mt g w]
      by (auto simp: eq F full_storm_phase_frame)
  next
    case E
    then show ?thesis using assms by (simp add: run_step_END)
  qed
  then show "phase_rank (state w) \<le> phase_rank (state w')"
    and "phase_rank (state w') \<le> Suc (phase_rank (state w))"
    and "full_stage w' = full_stage w \<or> stage_next (full_stage w) (full_stage w')"
    and "petrichor_detected (s w) \<longrightarrow> petrichor_detected (s w')"
    and "rain_sound_detected (s w) \<longrightarrow> rain_sound_detected (s w')"
    and "constants w' = constants w"
    and "sound_speed w' = sound_speed w"
    and "seed g' = seed g"
    by simp_all
qed

lemma run_step_stage_rank:
  assumes "run_step mt (g, w) = Inr (g', w')"
  shows "stage_rank (full_stage w) \<le> stage_rank (full_stage w')"
    and "stage_rank (full_stage w') \<le> Suc (stage_rank (full_stage w))"
  using run_step_props(3) [OF assms] stage_next_rank [of "full_stage w" "full_stage w'"]
  by auto

text \<open>A property that no pass of the loop destroys holds along the whole trace.\<close>

lemma steps_preserve:
  assumes step: "\<And>x y. run_step mt x = Inr y \<Longrightarrow> R x y"
    and refl: "\<And>x. R x x" and trans: "\<And>x y z. R x y \<Longrightarrow> R y z \<Longrightarrow> R x z"
    and "steps mt k x = Inr z"
  shows "R x z"
  using assms(4)
proof (induction k arbitrary: z)
  case 0
  then show ?case by (simp add: refl)
next
  case (Suc k)
  from Suc.prems obtain y where y: "steps mt k x = Inr y" and z: "run_step mt y = Inr z"
    by (auto simp: steps_Suc_end simp del: steps.simps split: sum.splits)
  from trans [OF Suc.IH [OF y] step [OF z]] show ?case .
qed

section \<open>Claims on the shape of every run\<close>

text \<open>
  Claim C5. Along every run the phase only moves forward through BREWING, THRESHOLD,
  FULL_STORM, END and the sub-stage only moves forward through impact, downpour, frenzy,
  chaos, silence: between any two points of a trace neither rank decreases, and one pass
  of the loop advances each of them by at most one position.
\<close>

theorem phase_forward:
  assumes "steps mt n gw = Inr y" and "steps mt (n + k) gw = Inr z"
  shows "phase_rank (state (snd y)) \<le> phase_rank (state (snd z))
    \<and> stage_rank (full_stage (snd y)) \<le> stage_rank (full_stage (snd z))
    \<and> (k = 1 \<longrightarrow> phase_rank (state (snd z)) \<le> Suc (phase_rank (state (snd y)))
          \<and> stage_rank (full_stage (snd z)) \<le> Suc (stage_rank (full_stage (snd y))))"
proof -
  have yz: "steps mt k y = Inr z"
    using assms by (simp add: steps_add)
  have mono: "phase_rank (state (snd y)) \<le> phase_rank (state (snd z))
      \<and> stage_rank (full_stage (snd y)) \<le> stage_rank (full_stage (snd z))"
  proof (rule steps_preserve [where R = "\<lambda>a b. phase_rank (state (snd a)) \<le> phase_rank (state (snd b))
      \<and> stage_rank (full_stage (snd a)) \<le> stage_rank (full_stage (snd b))", OF _ _ _ yz])
    fix a b :: "rng \<times> Storm"
    assume "run_step mt a = Inr b"
    then have "run_step mt (fst a, snd a) = Inr (fst b, snd b)" by simp
    from run_step_props(1) [OF this] run_step_stage_rank(1) [OF this]
    show "phase_rank (state (snd a)) \<le> phase_rank (state (snd b))
      \<and> stage_rank (full_stage (snd a)) \<le> stage_rank (full_stage (snd b))" by simp
  qed auto
  have one: "phase_rank (state (snd z)) \<le> Suc (phase_rank (state (snd y)))
      \<and> stage_rank (full_stage (snd z)) \<le> Suc (stage_rank (full_stage (snd y)))" if "k = 1"
  proof -
    have "run_step mt (fst y, snd y) = Inr (fst z, snd z)"
      using yz that by (simp split: sum.splits)
    from run_step_props(2) [OF this] run_step_stage_rank(2) [OF this] show ?thesis by simp
  qed
  from mono one show ?thesis by blast
qed

theorem phase_forward_witness:
  "steps (\<lambda>k i. 0) 0 (Storm_new \<lparr>seed = 0, drawn = 0\<rparr>) = Inr (Storm_new \<lparr>seed = 0, drawn = 0\<rparr>)
   \<and> steps (\<lambda>k i. 0) (0 + 1) (Storm_new \<lparr>seed = 0, drawn = 0\<rparr>)
       = Inr (\<lparr>seed = 0, drawn = 0\<rparr>, (brewing_phase Storm_init)\<lparr>iteration := 1\<rparr>)
   \<and> phase_rank (state (snd (Storm_new \<lparr>seed = 0, drawn = 0\<rparr>)))
       \<le> phase_rank (state ((brewing_phase Storm_init)\<lparr>iteration := 1\<rparr>))
   \<and> stage_rank (full_stage ((brewing_phase Storm_init)\<lparr>iteration := 1\<rparr>))
       \<le> Suc (stage_rank (full_stage (snd (Storm_new \<lparr>seed = 0, drawn = 0\<rparr>))))"
proof -
  have st: "state Storm_init = BREWING" and it: "iteration Storm_init = 0"
    by (simp_all add: Storm_init_def)
  have h1: "steps (\<lambda>k i. 0) 0 (Storm_new \<lparr>seed = 0, drawn = 0\<rparr>) = Inr (Storm_new \<lparr>seed = 0, drawn = 0\<rparr>)"
    by simp
  have h2: "steps (\<lambda>k i. 0) (0 + 1) (Storm_new \<lparr>seed = 0, drawn = 0\<rparr>)
       = Inr (\<lparr>seed = 0, drawn = 0\<rparr>, (brewing_phase Storm_init)\<lparr>iteration := 1\<rparr>)"
    by (simp add: Storm_new_def random_seed_def run_step_BREWING [OF st] brewing_phase_frame it)
  from phase_forward [OF h1 h2] h1 h2 show ?thesis by simp
qed

text \<open>
  Claim C6. \<^verbatim>\<open>petrichor_detected\<close> and \<^verbatim>\<open>rain_sound_detected\<close> are latches: once
  either is true at some point of a trace, it is true at every later point.
\<close>

theorem latches_monotonic:
  assumes "steps mt n gw = Inr y" and "steps mt (n + k) gw = Inr z"
  shows "(petrichor_detected (s (snd y)) \<longrightarrow> petrichor_detected (s (snd z)))
    \<and> (rain_sound_detected (s (snd y)) \<longrightarrow> rain_sound_detected (s (snd z)))"
proof -
  have yz: "steps mt k y = Inr z"
    using assms by (simp add: steps_add)
  show ?thesis
  proof (rule steps_preserve [where R = "\<lambda>a b. (petrichor_detected (s (snd a)) \<longrightarrow> petrichor_detected (s (snd b)))
      \<and> (rain_sound_detected (s (snd a)) \<longrightarrow> rain_sound_detected (s (snd b)))", OF _ _ _ yz])
    fix a b :: "rng \<times> Storm"
    assume "run_step mt a = Inr b"
    then have "run_step mt (fst a, snd a) = Inr (fst b, snd b)" by simp
    from run_step_props(4,5) [OF this]
    show "(petrichor_detected (s (snd a)) \<longrightarrow> petrichor_detected (s (snd b)))
      \<and> (rain_sound_detected (s (snd a)) \<longrightarrow> rain_sound_detected (s (snd b)))" by simp
  qed auto
qed

theorem latches_monotonic_witness:
  "steps (\<lambda>k i. 0) 0
      (\<lparr>seed = 0, drawn = 0\<rparr>,
       Storm_init\<lparr>s := (s Storm_init)\<lparr>petrichor_detected := True, rain_sound_detected := True\<rparr>\<rparr>)
    = Inr (\<lparr>seed = 0, drawn = 0\<rparr>,
       Storm_init\<lparr>s := (s Storm_init)\<lparr>petrichor_detected := True, rain_sound_detected := True\<rparr>\<rparr>)
   \<and> steps (\<lambda>k i. 0) (0 + 1)
      (\<lparr>seed = 0, drawn = 0\<rparr>,
       Storm_init\<lparr>s := (s Storm_init)\<lparr>petrichor_detected := True, rain_sound_detected := True\<rparr>\<rparr>)
    = Inr (\<lparr>seed = 0, drawn = 0\<rparr>,
       (brewing_phase
          (Storm_init\<lparr>s := (s Storm_init)\<lparr>petrichor_detected := True, rain_sound_detected := True\<rparr>\<rparr>))
         \<lparr>iteration := 1\<rparr>)
   \<and> petrichor_detected (s ((brewing_phase
          (Storm_init\<lparr>s := (s Storm_init)\<lparr>petrichor_detected := True, rain_sound_detected := True\<rparr>\<rparr>))
         \<lparr>iteration := 1\<rparr>))
   \<and> rain_sound_detected (s ((brewing_phase
          (Storm_init\<lparr>s := (s Storm_init)\<lparr>petrichor_detected := True, rain_sound_detected := True\<rparr>\<rparr>))
         \<lparr>iteration := 1\<rparr>))"
proof -
  let ?W = "Storm_init\<lparr>s := (s Storm_init)\<lparr>petrichor_detected := True, rain_sound_detected := True\<rparr>\<rparr>"
  let ?g = "\<lparr>seed = 0, drawn = 0\<rparr>"
  have st: "state ?W = BREWING" and it: "iteration ?W = 0"
    by (simp_all add: Storm_init_def)
  have h1: "steps (\<lambda>k i. 0) 0 (?g, ?W) = Inr (?g, ?W)"
    by simp
  have h2: "steps (\<lambda>k i. 0) (0 + 1) (?g, ?W) = Inr (?g, (brewing_phase ?W)\<lparr>iteration := 1\<rparr>)"
    using it by (simp add: run_step_BREWING [OF st] brewing_phase_frame)
  from latches_monotonic [OF h1 h2] h1 h2 show ?thesis by simp
qed


subsection \<open>The constants and the initial state, field by field\<close>

lemma storm_constants_simps:
  "brew_target_temp storm_constants = 12"
  "brew_temp_drop storm_constants = 0.3"
  "brew_pressure_drop storm_constants = 0.5"
  "brew_shadow_gain storm_constants = 0.05"
  "brew_wind_gain storm_constants = 0.2"
  "brew_humidity_gain storm_constants = 1.5"
  "petrichor_humidity storm_constants = 68"
  "petrichor_soil storm_constants = 18"
  "brew_pressure_threshold storm_constants = 990"
  "brew_wind_instability_threshold storm_constants = 5"
  "brew_shadow_threshold storm_constants = 0.9"
  "threshold_lightning_charge_gain storm_constants = 8"
  "threshold_lightning_threshold storm_constants = 24"
  "threshold_wind_gain storm_constants = 1.1"
  "threshold_humidity_gain storm_constants = 2.2"
  "threshold_saturation storm_constants = 98"
  "threshold_turbulent_wind storm_constants = 18"
  "threshold_min_lightning storm_constants = 4"
  "threshold_rain_distance_drop storm_constants = 1.7"
  "full_vertical_burst storm_constants = 35"
  "full_downpour_intensity storm_constants = 60"
  "full_frenzy_frequency storm_constants = 12"
  "full_turbulence_peak storm_constants = 40"
  "full_particle_density_peak storm_constants = 85"
  "silence_decay storm_constants = 4.5"
  by (simp_all add: storm_constants_def)

lemma Storm_init_simps:
  "state Storm_init = BREWING"
  "full_stage Storm_init = ''impact''"
  "iteration Storm_init = 0"
  "F (constants Storm_init) = F storm_constants"
  "charge Storm_init = 0"
  "lightning_distance Storm_init = 18"
  "sound_speed Storm_init = 0.34"
  "temperature (s Storm_init) = 20"
  "pressure (s Storm_init) = 1012"
  "wind_speed (s Storm_init) = 0"
  "wind_direction (s Storm_init) = 0"
  "wind_instability (s Storm_init) = 0"
  "humidity (s Storm_init) = 45"
  "soil_temperature (s Storm_init) = 20"
  "shadow_density (s Storm_init) = 0.1"
  "petrichor_detected (s Storm_init) = False"
  "lightning_events (s Storm_init) = 0"
  "thunder_delay (s Storm_init) = 0"
  "rain_sound_detected (s Storm_init) = False"
  "rain_intensity (s Storm_init) = 0"
  "downdraft_force (s Storm_init) = 0"
  "lightning_frequency (s Storm_init) = 0"
  "turbulence (s Storm_init) = 0"
  "rain_particle_density (s Storm_init) = 0"
  by (simp_all add: Storm_init_def)

subsection \<open>The fields after a BREWING step\<close>

lemma brewing_phase_fields:
  "temperature (s (brewing_phase w)) =
     max (brew_target_temp (constants w)) (temperature (s w) - brew_temp_drop (constants w))"
  "pressure (s (brewing_phase w)) =
     max (brew_pressure_threshold (constants w)) (pressure (s w) - brew_pressure_drop (constants w))"
  "wind_instability (s (brewing_phase w)) = wind_instability (s w) + brew_wind_gain (constants w)"
  "wind_speed (s (brewing_phase w)) =
     min (wind_speed (s w) + brew_wind_gain (constants w)) (threshold_turbulent_wind (constants w))"
  "wind_direction (s (brewing_phase w)) =
     fmod_py (wind_direction (s w) + 7 + sin (of_int (iteration w))) 360"
  "humidity (s (brewing_phase w)) = min 100 (humidity (s w) + brew_humidity_gain (constants w))"
  "soil_temperature (s (brewing_phase w)) = max 10 (soil_temperature (s w) - 0.1)"
  "shadow_density (s (brewing_phase w)) =
     min 1 (shadow_density (s w) + brew_shadow_gain (constants w))"
  "petrichor_detected (s (brewing_phase w)) \<longleftrightarrow>
     petrichor_detected (s w)
     \<or> petrichor_humidity (constants w) \<le> min 100 (humidity (s w) + brew_humidity_gain (constants w))
       \<and> max 10 (soil_temperature (s w) - 0.1) \<le> petrichor_soil (constants w)"
  "lightning_events (s (brewing_phase w)) = lightning_events (s w)"
  "thunder_delay (s (brewing_phase w)) = thunder_delay (s w)"
  "rain_intensity (s (brewing_phase w)) = rain_intensity (s w)"
  "downdraft_force (s (brewing_phase w)) = downdraft_force (s w)"
  "lightning_frequency (s (brewing_phase w)) = lightning_frequency (s w)"
  "turbulence (s (brewing_phase w)) = turbulence (s w)"
  "rain_particle_density (s (brewing_phase w)) = rain_particle_density (s w)"
  by (simp_all add: brewing_phase_def Let_def)

lemma brewing_complete_state_update:
  "brewing_complete (w\<lparr>state := p\<rparr>) = brewing_complete w"
  by (simp add: brewing_complete_def)

lemma brewing_phase_state_eq:
  "state (brewing_phase w) =
     (if brewing_complete (brewing_phase w) then THRESHOLD else state w)"
  by (simp add: brewing_phase_def Let_def brewing_complete_state_update)

lemma brewing_complete_brewing_phase:
  "brewing_complete (brewing_phase w) \<longleftrightarrow>
     temperature (s (brewing_phase w)) \<le> brew_target_temp (constants w)
     \<and> pressure (s (brewing_phase w)) \<le> brew_pressure_threshold (constants w)
     \<and> wind_instability (s (brewing_phase w)) \<ge> brew_wind_instability_threshold (constants w)
     \<and> shadow_density (s (brewing_phase w)) \<ge> brew_shadow_threshold (constants w)
     \<and> petrichor_detected (s (brewing_phase w))"
  using brewing_phase_frame(1) [of "\<lambda>x. x" w] by (simp add: brewing_complete_def)

subsection \<open>The fields after a THRESHOLD step\<close>

lemma threshold_phase_projr:
  assumes "threshold_phase mt (g, w) = Inr (g', w')"
  shows "sound_speed w \<noteq> 0"
    and "g' = fst (projr (threshold_phase mt (g, w)))"
    and "w' = snd (projr (threshold_phase mt (g, w)))"
  using assms threshold_phase_Inl [of w mt g] by auto

lemma threshold_phase_fields0:
  assumes "sound_speed w \<noteq> 0"
  shows
    "charge (snd (projr (threshold_phase mt (g, w)))) =
      (if threshold_lightning_threshold (constants w)
            \<le> charge w + threshold_lightning_charge_gain (constants w)
       then charge w + threshold_lightning_charge_gain (constants w)
            - threshold_lightning_threshold (constants w) * 0.7
       else charge w + threshold_lightning_charge_gain (constants w))"
    "lightning_events (s (snd (projr (threshold_phase mt (g, w))))) =
      (if threshold_lightning_threshold (constants w)
            \<le> charge w + threshold_lightning_charge_gain (constants w)
       then lightning_events (s w) + 1 else lightning_events (s w))"
    "wind_speed (s (snd (projr (threshold_phase mt (g, w))))) =
      wind_speed (s w) + threshold_wind_gain (constants w)"
    "wind_direction (s (snd (projr (threshold_phase mt (g, w))))) =
      fmod_py (wind_direction (s w) + 23 + mt (seed g) (drawn g)) 360"
    "wind_instability (s (snd (projr (threshold_phase mt (g, w))))) = wind_instability (s w) + 0.8"
    "lightning_distance (snd (projr (threshold_phase mt (g, w)))) =
      max 1 (lightning_distance w - threshold_rain_distance_drop (constants w))"
    "thunder_delay (s (snd (projr (threshold_phase mt (g, w))))) =
      max 1 (lightning_distance w - threshold_rain_distance_drop (constants w)) / sound_speed w"
    "rain_sound_detected (s (snd (projr (threshold_phase mt (g, w))))) \<longleftrightarrow>
      rain_sound_detected (s w)
      \<or> max 1 (lightning_distance w - threshold_rain_distance_drop (constants w)) \<le> 8"
    "humidity (s (snd (projr (threshold_phase mt (g, w))))) =
      min 100 (humidity (s w) + threshold_humidity_gain (constants w))"
    "drawn (fst (projr (threshold_phase mt (g, w)))) = drawn g + 1"
    "temperature (s (snd (projr (threshold_phase mt (g, w))))) = temperature (s w)"
    "pressure (s (snd (projr (threshold_phase mt (g, w))))) = pressure (s w)"
    "soil_temperature (s (snd (projr (threshold_phase mt (g, w))))) = soil_temperature (s w)"
    "shadow_density (s (snd (projr (threshold_phase mt (g, w))))) = shadow_density (s w)"
    "rain_intensity (s (snd (projr (threshold_phase mt (g, w))))) = rain_intensity (s w)"
    "downdraft_force (s (snd (projr (threshold_phase mt (g, w))))) = downdraft_force (s w)"
    "lightning_frequency (s (snd (projr (threshold_phase mt (g, w))))) = lightning_frequency (s w)"
    "turbulence (s (snd (projr (threshold_phase mt (g, w))))) = turbulence (s w)"
    "rain_particle_density (s (snd (projr (threshold_phase mt (g, w))))) = rain_particle_density (s w)"
  using assms
  by (simp_all add: threshold_phase_def Let_def py_div_def random_random_def split: prod.split)

lemma threshold_phase_fields:
  assumes "threshold_phase mt (g, w) = Inr (g', w')"
  shows
    "charge w' =
      (if threshold_lightning_threshold (constants w)
            \<le> charge w + threshold_lightning_charge_gain (constants w)
       then charge w + threshold_lightning_charge_gain (constants w)
            - threshold_lightning_threshold (constants w) * 0.7
       else charge w + threshold_lightning_charge_gain (constants w))"
    "lightning_events (s w') =
      (if threshold_lightning_threshold (constants w)
            \<le> charge w + threshold_lightning_charge_gain (constants w)
       then lightning_events (s w) + 1 else lightning_events (s w))"
    "wind_speed (s w') = wind_speed (s w) + threshold_wind_gain (constants w)"
    "wind_direction (s w') = fmod_py (wind_direction (s w) + 23 + mt (seed g) (drawn g)) 360"
    "wind_instability (s w') = wind_instability (s w) + 0.8"
    "lightning_distance w' =
      max 1 (lightning_distance w - threshold_rain_distance_drop (constants w))"
    "thunder_delay (s w') =
      max 1 (lightning_distance w - threshold_rain_distance_drop (constants w)) / sound_speed w"
    "rain_sound_detected (s w') \<longleftrightarrow>
      rain_sound_detected (s w)
      \<or> max 1 (lightning_distance w - threshold_rain_distance_drop (constants w)) \<le> 8"
    "humidity (s w') = min 100 (humidity (s w) + threshold_humidity_gain (constants w))"
    "drawn g' = drawn g + 1"
    "temperature (s w') = temperature (s w)"
    "pressure (s w') = pressure (s w)"
    "soil_temperature (s w') = soil_temperature (s w)"
    "shadow_density (s w') = shadow_density (s w)"
    "rain_intensity (s w') = rain_intensity (s w)"
    "downdraft_force (s w') = downdraft_force (s w)"
    "lightning_frequency (s w') = lightning_frequency (s w)"
    "turbulence (s w') = turbulence (s w)"
    "rain_particle_density (s w') = rain_particle_density (s w)"
  unfolding threshold_phase_projr(2,3) [OF assms]
  by (rule threshold_phase_fields0 [OF threshold_phase_projr(1) [OF assms]])+

lemma threshold_complete_state_update:
  "threshold_complete (w\<lparr>state := p\<rparr>) = threshold_complete w"
  by (simp add: threshold_complete_def)

lemma threshold_phase_state_eq:
  assumes "threshold_phase mt (g, w) = Inr (g', w')"
  shows "state w' = (if threshold_complete w' then FULL_STORM else state w)"
proof -
  have "state (snd (projr (threshold_phase mt (g, w)))) =
      (if threshold_complete (snd (projr (threshold_phase mt (g, w)))) then FULL_STORM else state w)"
    using threshold_phase_projr(1) [OF assms]
    by (simp add: threshold_phase_def Let_def py_div_def random_random_def
        threshold_complete_state_update split: prod.split)
  then show ?thesis
    unfolding threshold_phase_projr(3) [OF assms] .
qed

section \<open>Claims on single steps\<close>




text \<open>
  Claim C8, as amended. All arithmetic of a run is total. The one division of the
  program computes \<^verbatim>\<open>thunder_delay\<close> as \<^verbatim>\<open>lightning_distance / sound_speed\<close>: its divisor
  is \<^verbatim>\<open>sound_speed\<close>, which is 0.34 at construction and is never written, so no pass of
  the loop of a freshly constructed engine raises; \<^verbatim>\<open>lightning_distance\<close>, clamped from
  below at 1.0, is the dividend.
\<close>

theorem division_total:
  "(\<exists>g' w'. steps mt n (Storm_new g) = Inr (g', w') \<and> sound_speed w' = 0.34)
   \<and> (sound_speed w \<noteq> 0 \<longrightarrow>
        (\<exists>g' w'. threshold_phase mt (g, w) = Inr (g', w')
          \<and> 1 \<le> lightning_distance w'
          \<and> thunder_delay (s w') = lightning_distance w' / sound_speed w))"
proof
  show "\<exists>g' w'. steps mt n (Storm_new g) = Inr (g', w') \<and> sound_speed w' = 0.34"
  proof (induction n)
    case 0
    then show ?case by (simp add: Storm_new_def Storm_init_simps)
  next
    case (Suc n)
    then obtain g' w' where y: "steps mt n (Storm_new g) = Inr (g', w')"
      and ss: "sound_speed w' = 0.34" by blast
    have "\<exists>g'' w''. run_step mt (g', w') = Inr (g'', w'')"
    proof (cases "state w' = THRESHOLD")
      case True
      have "sound_speed w' \<noteq> 0" using ss by simp
      from threshold_phase_Inr [OF this, of mt g'] show ?thesis
        by (auto simp: run_step_THRESHOLD [OF True])
    next
      case False
      then show ?thesis
        by (cases "state w'") (auto simp: run_step_def run_body_def split: prod.split)
    qed
    then obtain g'' w'' where z: "run_step mt (g', w') = Inr (g'', w'')" by blast
    from run_step_props(7) [OF z] ss have "sound_speed w'' = 0.34" by simp
    with y z show ?case by (simp add: steps_Suc_end del: steps.simps)
  qed
  show "sound_speed w \<noteq> 0 \<longrightarrow>
        (\<exists>g' w'. threshold_phase mt (g, w) = Inr (g', w')
          \<and> 1 \<le> lightning_distance w'
          \<and> thunder_delay (s w') = lightning_distance w' / sound_speed w)"
  proof
    assume nz: "sound_speed w \<noteq> 0"
    from threshold_phase_Inr [OF nz, of mt g]
    obtain g' w' where r: "threshold_phase mt (g, w) = Inr (g', w')" by auto
    from threshold_phase_fields(6,7) [OF r] r show "\<exists>g' w'. threshold_phase mt (g, w) = Inr (g', w')
          \<and> 1 \<le> lightning_distance w'
          \<and> thunder_delay (s w') = lightning_distance w' / sound_speed w"
      by simp
  qed
qed

theorem division_total_witness:
  "sound_speed Storm_init \<noteq> 0
   \<and> threshold_phase mt_zero (\<lparr>seed = 0, drawn = 0\<rparr>, Storm_init)
       = Inr (projr (threshold_phase mt_zero (\<lparr>seed = 0, drawn = 0\<rparr>, Storm_init)))
   \<and> lightning_distance (snd (projr (threshold_phase mt_zero (\<lparr>seed = 0, drawn = 0\<rparr>, Storm_init))))
       = 16.3
   \<and> thunder_delay (s (snd (projr (threshold_phase mt_zero (\<lparr>seed = 0, drawn = 0\<rparr>, Storm_init)))))
       = 16.3 / 0.34"
proof -
  let ?g = "\<lparr>seed = 0, drawn = 0\<rparr>"
  let ?R = "projr (threshold_phase mt_zero (?g, Storm_init))"
  have nz: "sound_speed Storm_init \<noteq> 0"
    by (simp add: Storm_init_simps)
  from division_total [of mt_zero 0 ?g Storm_init] nz
  obtain g' w' where r: "threshold_phase mt_zero (?g, Storm_init) = Inr (g', w')"
    and td: "thunder_delay (s w') = lightning_distance w' / sound_speed Storm_init"
    by blast
  have ld: "lightning_distance w' = 16.3"
    using threshold_phase_fields(6) [OF r] Storm_init_simps(4) [of "\<lambda>x. x"]
    by (simp add: Storm_init_simps storm_constants_simps)
  from r td ld nz show ?thesis
    by (simp add: Storm_init_simps)
qed

text \<open>
  Claim C8, as stated, has the clamp of \<^verbatim>\<open>lightning_distance\<close> protect the division.
  It does not: in an engine whose \<^verbatim>\<open>sound_speed\<close> is zero the THRESHOLD step raises
  \<^verbatim>\<open>ZeroDivisionError\<close> although the clamped distance is at least 1.0.
\<close>

theorem clamp_is_not_the_divisor:
  "1 \<le> max 1.0 (lightning_distance (Storm_init\<lparr>sound_speed := 0\<rparr>)
                  - threshold_rain_distance_drop (constants (Storm_init\<lparr>sound_speed := 0\<rparr>)))
   \<and> threshold_phase mt_zero (\<lparr>seed = 0, drawn = 0\<rparr>, Storm_init\<lparr>sound_speed := 0\<rparr>)
       = Inl ZeroDivisionError"
  by (simp add: threshold_phase_Inl)

subsection \<open>The BREWING phase of a fresh engine\<close>


lemma brewing_after_0: "brewing_after 0 Storm_init"
  using Storm_init_simps(4) [of "\<lambda>x. x"] by (simp add: brewing_after_def Storm_init_simps)

lemma brew_arith:
  fixes x :: real
  assumes "0 \<le> x" and "x \<le> 43"
  shows "max 12 (max 12 (20 - 0.3 * x) - 0.3) = max 12 (20 - 0.3 * (x + 1))"
    and "max 990 (1012 - 0.5 * x - 0.5) = 1012 - 0.5 * (x + 1)"
    and "min (0.2 * x + 0.2) 18 = 0.2 * (x + 1)"
    and "0.2 * x + 0.2 = 0.2 * (x + 1)"
    and "min (0.2 * (x + 1)) 18 = 0.2 * (x + 1)"
    and "min 100 (min 100 (45 + 1.5 * x) + 1.5) = min 100 (45 + 1.5 * (x + 1))"
    and "max 10 (20 - 0.1 * x - 0.1) = 20 - 0.1 * (x + 1)"
    and "min 1 (min 1 (0.1 + 0.05 * x) + 0.05) = min 1 (0.1 + 0.05 * (x + 1))"
  using assms by (auto simp add: min_def max_def field_simps)

lemma brew_arith_petrichor:
  fixes x :: real
  assumes "0 \<le> x" and "x \<le> 43"
  shows "(68 \<le> min 100 (min 100 (45 + 1.5 * x) + 1.5) \<and> max 10 (20 - 0.1 * x - 0.1) \<le> 18)
    = (19 \<le> x)"
  using assms by (auto simp add: min_def max_def field_simps)

lemma brew_arith_complete:
  fixes x :: real
  assumes "0 \<le> x" and "x \<le> 43"
  shows "(max 12 (20 - 0.3 * (x + 1)) \<le> 12 \<and> 1012 - 0.5 * (x + 1) \<le> 990
      \<and> 5 \<le> 0.2 * (x + 1) \<and> 0.9 \<le> min 1 (0.1 + 0.05 * (x + 1)) \<and> 19 \<le> x)
    = (x = 43)"
  using assms by (auto simp add: min_def max_def field_simps)

lemma brewing_after_Suc:
  assumes "n < 44" and "brewing_after n w"
  shows "brewing_after (Suc n) ((brewing_phase w)\<lparr>iteration := iteration (brewing_phase w) + 1\<rparr>)"
proof -
  have cw: "constants w = storm_constants" using assms(2) by (simp add: brewing_after_def)
  have c': "constants (brewing_phase w) = storm_constants"
    using brewing_phase_frame(1) [of "\<lambda>x. x = storm_constants" w] cw by simp
  have n: "0 \<le> real n" "real n \<le> 43" using assms(1) by simp_all
  have S: "real (Suc n) = real n + 1" by simp
  have v: "temperature (s w) = max 12 (20 - 0.3 * real n)"
    "pressure (s w) = 1012 - 0.5 * real n"
    "wind_speed (s w) = 0.2 * real n"
    "wind_instability (s w) = 0.2 * real n"
    "humidity (s w) = min 100 (45 + 1.5 * real n)"
    "soil_temperature (s w) = 20 - 0.1 * real n"
    "shadow_density (s w) = min 1 (0.1 + 0.05 * real n)"
    and vp: "petrichor_detected (s w) = (20 \<le> n)"
    and vo: "state w = BREWING" "full_stage w = ''impact''" "iteration w = int n"
    "charge w = 0" "lightning_distance w = 18" "sound_speed w = 0.34"
    "lightning_events (s w) = 0" "thunder_delay (s w) = 0" "rain_sound_detected (s w) = False"
    "rain_intensity (s w) = 0" "downdraft_force (s w) = 0" "lightning_frequency (s w) = 0"
    "turbulence (s w) = 0" "rain_particle_density (s w) = 0"
    using assms by (simp_all add: brewing_after_def)
  have r: "temperature (s (brewing_phase w)) = max 12 (max 12 (20 - 0.3 * real n) - 0.3)"
    "pressure (s (brewing_phase w)) = max 990 (1012 - 0.5 * real n - 0.5)"
    "wind_speed (s (brewing_phase w)) = min (0.2 * real n + 0.2) 18"
    "wind_instability (s (brewing_phase w)) = 0.2 * real n + 0.2"
    "humidity (s (brewing_phase w)) = min 100 (min 100 (45 + 1.5 * real n) + 1.5)"
    "soil_temperature (s (brewing_phase w)) = max 10 (20 - 0.1 * real n - 0.1)"
    "shadow_density (s (brewing_phase w)) = min 1 (min 1 (0.1 + 0.05 * real n) + 0.05)"
    and rp: "petrichor_detected (s (brewing_phase w)) \<longleftrightarrow>
       (20 \<le> n)
       \<or> 68 \<le> min 100 (min 100 (45 + 1.5 * real n) + 1.5) \<and> max 10 (20 - 0.1 * real n - 0.1) \<le> 18"
    by (simp_all only: brewing_phase_fields cw storm_constants_simps v vp)
  have f: "temperature (s (brewing_phase w)) = max 12 (20 - 0.3 * real (Suc n))"
    "pressure (s (brewing_phase w)) = 1012 - 0.5 * real (Suc n)"
    "wind_speed (s (brewing_phase w)) = 0.2 * real (Suc n)"
    "wind_instability (s (brewing_phase w)) = 0.2 * real (Suc n)"
    "humidity (s (brewing_phase w)) = min 100 (45 + 1.5 * real (Suc n))"
    "soil_temperature (s (brewing_phase w)) = 20 - 0.1 * real (Suc n)"
    "shadow_density (s (brewing_phase w)) = min 1 (0.1 + 0.05 * real (Suc n))"
    by (simp_all only: r S brew_arith [OF n])
  have n19: "(19 \<le> real n) = (20 \<le> Suc n)" and n43: "(real n = 43) = (Suc n = 44)"
    and n20: "20 \<le> n \<Longrightarrow> 20 \<le> Suc n"
    by auto
  have p: "petrichor_detected (s (brewing_phase w)) = (20 \<le> Suc n)"
    unfolding rp brew_arith_petrichor [OF n] n19 using n20 by blast
  have bc: "brewing_complete (brewing_phase w) = (Suc n = 44)"
    unfolding brewing_complete_brewing_phase cw storm_constants_simps f p S
    unfolding n19 [symmetric] brew_arith_complete [OF n] n43 ..
  have st: "state (brewing_phase w) = (if Suc n < 44 then BREWING else THRESHOLD)"
    using assms(1) by (simp add: brewing_phase_state_eq bc vo)
  show ?thesis
    unfolding brewing_after_def
    by (simp add: c' f p st brewing_phase_fields(10-16) brewing_phase_frame vo)
qed

lemma brewing_steps:
  "n \<le> 44 \<Longrightarrow> \<exists>w. steps mt n (Storm_new g) = Inr (random_seed 0 g, w) \<and> brewing_after n w"
proof (induction n)
  case 0
  then show ?case by (simp add: Storm_new_def brewing_after_0)
next
  case (Suc n)
  then obtain w where w: "steps mt n (Storm_new g) = Inr (random_seed 0 g, w)"
    and b: "brewing_after n w" by auto
  have "state w = BREWING" using b Suc.prems by (simp add: brewing_after_def)
  from w run_step_BREWING [OF this, of mt "random_seed 0 g"]
  have "steps mt (Suc n) (Storm_new g)
      = Inr (random_seed 0 g, (brewing_phase w)\<lparr>iteration := iteration (brewing_phase w) + 1\<rparr>)"
    by (simp add: steps_Suc_end del: steps.simps)
  moreover have "brewing_after (Suc n)
      ((brewing_phase w)\<lparr>iteration := iteration (brewing_phase w) + 1\<rparr>)"
    using brewing_after_Suc [OF _ b] Suc.prems by simp
  ultimately show ?case by blast
qed

subsection \<open>The THRESHOLD phase of a fresh engine\<close>

lemma threshold_after_0:
  assumes "brewing_after 44 w"
  shows "threshold_after 0 (random_seed 0 g, w)"
  using assms by (simp add: threshold_after_def brewing_after_def random_seed_def)

lemma threshold_after_Suc:
  assumes "k < 10" and "threshold_after k (g, w)"
  shows "\<exists>g' w'. threshold_phase mt (g, w) = Inr (g', w')
    \<and> threshold_after (Suc k) (g', w'\<lparr>iteration := iteration w' + 1\<rparr>)"
proof -
  have cw: "constants w = storm_constants" using assms(2) by (simp add: threshold_after_def)
  have v: "seed g = 0" "drawn g = k" "state w = THRESHOLD" "full_stage w = ''impact''"
    "iteration w = 44 + int k"
    "charge w = [0, 8, 16, 7.2, 15.2, 23.2, 14.4, 22.4, 13.6, 21.6, 12.8] ! k"
    "lightning_events (s w) = [0, 0, 0, 1, 1, 1, 2, 2, 3, 3, 4] ! k"
    "lightning_distance w = 18 - 1.7 * real k" "sound_speed w = 0.34"
    "temperature (s w) = 12" "pressure (s w) = 990"
    "wind_speed (s w) = 8.8 + 1.1 * real k" "wind_instability (s w) = 8.8 + 0.8 * real k"
    "humidity (s w) = 100" "soil_temperature (s w) = 15.6" "shadow_density (s w) = 1"
    "petrichor_detected (s w) = True" "rain_sound_detected (s w) = (6 \<le> k)"
    "rain_intensity (s w) = 0" "downdraft_force (s w) = 0" "lightning_frequency (s w) = 0"
    "turbulence (s w) = 0" "rain_particle_density (s w) = 0"
    using assms by (simp_all add: threshold_after_def)
  have "sound_speed w \<noteq> 0" by (simp add: v)
  from threshold_phase_Inr [OF this, of mt g]
  obtain g' w' where r: "threshold_phase mt (g, w) = Inr (g', w')" by auto
  note f = threshold_phase_fields [OF r, unfolded cw storm_constants_simps v]
  note fr = threshold_phase_frame(2-6) [OF r, unfolded v]
  have c': "constants w' = storm_constants"
    using threshold_phase_frame(1) [OF r, of "\<lambda>x. x = storm_constants"] cw by simp
  have st: "state w' = (if threshold_complete w' then FULL_STORM else THRESHOLD)"
    using threshold_phase_state_eq [OF r] by (simp add: v)
  have tc: "threshold_complete w' \<longleftrightarrow>
     lightning_events (s w') \<ge> 4 \<and> thunder_delay (s w') \<le> 20
     \<and> wind_speed (s w') \<ge> 18 \<and> rain_sound_detected (s w') \<and> humidity (s w') \<ge> 98"
    by (simp add: threshold_complete_def c' storm_constants_simps)
  have "k = 0 \<or> k = 1 \<or> k = 2 \<or> k = 3 \<or> k = 4 \<or> k = 5 \<or> k = 6 \<or> k = 7 \<or> k = 8 \<or> k = 9"
    using assms(1) by presburger
  then consider "k = 0" | "k = 1" | "k = 2" | "k = 3" | "k = 4" | "k = 5" | "k = 6" | "k = 7"
    | "k = 8" | "k = 9"
    by blast
  then have "threshold_after (Suc k) (g', w'\<lparr>iteration := iteration w' + 1\<rparr>)"
    by cases (simp_all add: threshold_after_def c' st tc f fr)
  with r show ?thesis by blast
qed

lemma threshold_steps:
  "k \<le> 10 \<Longrightarrow> \<exists>g' w'. steps mt (44 + k) (Storm_new g) = Inr (g', w') \<and> threshold_after k (g', w')"
proof (induction k)
  case 0
  from brewing_steps [of 44 mt g] obtain w
    where "steps mt 44 (Storm_new g) = Inr (random_seed 0 g, w)" and "brewing_after 44 w"
    by auto
  then show ?case using threshold_after_0 [of w g] by auto
next
  case (Suc k)
  then obtain g' w' where w: "steps mt (44 + k) (Storm_new g) = Inr (g', w')"
    and t: "threshold_after k (g', w')" by auto
  have k: "k < 10" using Suc.prems by simp
  from threshold_after_Suc [OF k t, of mt] obtain g'' w''
    where r: "threshold_phase mt (g', w') = Inr (g'', w'')"
      and t': "threshold_after (Suc k) (g'', w''\<lparr>iteration := iteration w'' + 1\<rparr>)"
    by auto
  have "state w' = THRESHOLD" using t k by (simp add: threshold_after_def)
  from run_step_THRESHOLD [OF this, of mt g'] r
  have "run_step mt (g', w') = Inr (g'', w''\<lparr>iteration := iteration w'' + 1\<rparr>)" by simp
  with w steps_Suc_end [of mt "44 + k" "Storm_new g"]
  have "steps mt (Suc (44 + k)) (Storm_new g)
      = Inr (g'', w''\<lparr>iteration := iteration w'' + 1\<rparr>)"
    by (simp only: sum.case)
  then have "steps mt (44 + Suc k) (Storm_new g)
      = Inr (g'', w''\<lparr>iteration := iteration w'' + 1\<rparr>)"
    by (simp only: add_Suc_right)
  with t' show ?case by blast
qed

subsection \<open>The fields after a FULL_STORM step\<close>

lemma full_storm_impact_fields:
  "rain_intensity (s (full_storm_impact w)) = rain_intensity (s w) + full_vertical_burst (constants w)"
  "temperature (s (full_storm_impact w)) = max 5 (temperature (s w) - 1.8)"
  "downdraft_force (s (full_storm_impact w)) = downdraft_force (s w) + 6"
  "full_stage (full_storm_impact w) =
     (if full_vertical_burst (constants w) \<le> rain_intensity (s w) + full_vertical_burst (constants w)
      then ''downpour'' else full_stage w)"
  "humidity (s (full_storm_impact w)) = humidity (s w)"
  "shadow_density (s (full_storm_impact w)) = shadow_density (s w)"
  "wind_direction (s (full_storm_impact w)) = wind_direction (s w)"
  "wind_speed (s (full_storm_impact w)) = wind_speed (s w)"
  "lightning_frequency (s (full_storm_impact w)) = lightning_frequency (s w)"
  "turbulence (s (full_storm_impact w)) = turbulence (s w)"
  "rain_particle_density (s (full_storm_impact w)) = rain_particle_density (s w)"
  by (simp_all add: full_storm_impact_def Let_def)

lemma run_step_impact:
  assumes "state w = FULL_STORM" and "full_stage w = ''impact''"
  shows "run_step mt (g, w) =
    Inr (g, (full_storm_impact w)\<lparr>iteration := iteration (full_storm_impact w) + 1\<rparr>)"
  by (simp add: run_step_FULL_STORM [OF assms(1)] full_storm_phase_def assms(2))

text \<open>The engine after 54 and after 55 passes of the loop.\<close>

lemma steps_54:
  "\<exists>g' w'. steps mt 54 (Storm_new g) = Inr (g', w') \<and> threshold_after 10 (g', w')"
  using threshold_steps [of 10 mt g] by simp

lemma steps_55:
  "\<exists>g' w'. steps mt 55 (Storm_new g) = Inr (g', w')
     \<and> seed g' = 0 \<and> constants w' = storm_constants
     \<and> state w' = FULL_STORM \<and> full_stage w' = ''downpour''
     \<and> rain_intensity (s w') = 35 \<and> downdraft_force (s w') = 6"
proof -
  from steps_54 [of mt g] obtain g' w'
    where w: "steps mt 54 (Storm_new g) = Inr (g', w')" and t: "threshold_after 10 (g', w')"
    by auto
  have v: "state w' = FULL_STORM" "full_stage w' = ''impact''" "constants w' = storm_constants"
    "rain_intensity (s w') = 0" "downdraft_force (s w') = 0" "seed g' = 0"
    using t by (simp_all add: threshold_after_def)
  let ?w = "(full_storm_impact w')\<lparr>iteration := iteration (full_storm_impact w') + 1\<rparr>"
  have "steps mt (Suc 54) (Storm_new g) = Inr (g', ?w)"
    using w run_step_impact [OF v(1,2), of mt g'] steps_Suc_end [of mt 54 "Storm_new g"]
    by (simp only: sum.case)
  moreover have "Suc 54 = 55" by simp
  ultimately have "steps mt 55 (Storm_new g) = Inr (g', ?w)" by (simp only:)
  moreover have "constants ?w = storm_constants"
    using full_storm_impact_frame(1) [of "\<lambda>x. x = storm_constants" w'] v(3) by simp
  moreover have "state ?w = FULL_STORM" "full_stage ?w = ''downpour''"
    "rain_intensity (s ?w) = 35" "downdraft_force (s ?w) = 6"
    by (simp_all add: full_storm_impact_frame full_storm_impact_fields v storm_constants_simps)
  ultimately show ?thesis using v(6) by blast
qed


section \<open>Claims on the run of a fresh engine\<close>




text \<open>
  Claim C10. A fresh engine enters FULL_STORM after 54 passes of the loop, in sub-stage
  impact and with rain intensity and downdraft force still at their initial value 0.0:
  no earlier pass is in FULL_STORM or changes the rain intensity. The impact sub-stage
  lasts exactly one pass: after pass 55 the sub-stage is downpour, the rain intensity is
  35.0 and the downdraft force is 6.0.
\<close>

theorem impact_one_step:
  "\<exists>g54 w54 g55 w55.
     steps mt 54 (Storm_new g) = Inr (g54, w54)
     \<and> state w54 = FULL_STORM \<and> full_stage w54 = ''impact''
     \<and> rain_intensity (s w54) = 0 \<and> downdraft_force (s w54) = 0
     \<and> (\<forall>n<54. \<exists>g' w'. steps mt n (Storm_new g) = Inr (g', w')
           \<and> state w' \<noteq> FULL_STORM \<and> state w' \<noteq> END \<and> full_stage w' = ''impact''
           \<and> rain_intensity (s w') = 0)
     \<and> steps mt 55 (Storm_new g) = Inr (g55, w55)
     \<and> state w55 = FULL_STORM \<and> full_stage w55 = ''downpour''
     \<and> rain_intensity (s w55) = full_vertical_burst (constants w55)
     \<and> rain_intensity (s w55) = 35.0 \<and> downdraft_force (s w55) = 6.0"
proof -
  from steps_54 [of mt g] obtain g54 w54
    where a: "steps mt 54 (Storm_new g) = Inr (g54, w54)" and t: "threshold_after 10 (g54, w54)"
    by auto
  have a': "state w54 = FULL_STORM" "full_stage w54 = ''impact''"
    "rain_intensity (s w54) = 0" "downdraft_force (s w54) = 0"
    using t by (simp_all add: threshold_after_def)
  from steps_55 [of mt g] obtain g55 w55
    where b: "steps mt 55 (Storm_new g) = Inr (g55, w55)"
      and b': "constants w55 = storm_constants" "state w55 = FULL_STORM"
        "full_stage w55 = ''downpour''"
        "rain_intensity (s w55) = 35" "downdraft_force (s w55) = 6"
    by auto
  have before: "\<exists>g' w'. steps mt n (Storm_new g) = Inr (g', w')
           \<and> state w' \<noteq> FULL_STORM \<and> state w' \<noteq> END \<and> full_stage w' = ''impact''
           \<and> rain_intensity (s w') = 0" if "n < 54" for n
  proof (cases "n \<le> 44")
    case True
    from brewing_steps [OF True, of mt g] obtain w
      where "steps mt n (Storm_new g) = Inr (random_seed 0 g, w)" and "brewing_after n w"
      by auto
    then show ?thesis by (auto simp add: brewing_after_def)
  next
    case False
    define k where "k = n - 44"
    have k: "n = 44 + k" "k < 10"
      using False that by (simp_all add: k_def)
    have "k \<le> 10" using k(2) by simp
    from threshold_steps [OF this, of mt g] obtain g' w'
      where "steps mt (44 + k) (Storm_new g) = Inr (g', w')" and "threshold_after k (g', w')"
      by auto
    then show ?thesis using k by (auto simp add: threshold_after_def)
  qed
  have c: "rain_intensity (s w55) = full_vertical_burst (constants w55)"
    by (simp add: b' storm_constants_simps)
  have allb: "\<forall>n<54. \<exists>g' w'. steps mt n (Storm_new g) = Inr (g', w')
           \<and> state w' \<noteq> FULL_STORM \<and> state w' \<noteq> END \<and> full_stage w' = ''impact''
           \<and> rain_intensity (s w') = 0"
    using before by blast
  show ?thesis
    by (rule exI [of _ g54], rule exI [of _ w54], rule exI [of _ g55], rule exI [of _ w55])
      (use a a' b b'(2-5) c allb in \<open>intro conjI; (assumption | simp)\<close>)
qed

theorem impact_one_step_witness:
  "(53 :: nat) < 54
   \<and> state (snd (projr (steps mt_zero 53 (Storm_new \<lparr>seed = 0, drawn = 0\<rparr>)))) \<noteq> FULL_STORM
   \<and> state (snd (projr (steps mt_zero 54 (Storm_new \<lparr>seed = 0, drawn = 0\<rparr>)))) = FULL_STORM
   \<and> full_stage (snd (projr (steps mt_zero 54 (Storm_new \<lparr>seed = 0, drawn = 0\<rparr>)))) = ''impact''
   \<and> full_stage (snd (projr (steps mt_zero 55 (Storm_new \<lparr>seed = 0, drawn = 0\<rparr>)))) = ''downpour''
   \<and> rain_intensity (s (snd (projr (steps mt_zero 55 (Storm_new \<lparr>seed = 0, drawn = 0\<rparr>))))) = 35.0"
proof -
  have h: "(53 :: nat) < 54" by simp
  from impact_one_step [of mt_zero "\<lparr>seed = 0, drawn = 0\<rparr>"] obtain g54 w54 g55 w55
    where a: "steps mt_zero 54 (Storm_new \<lparr>seed = 0, drawn = 0\<rparr>) = Inr (g54, w54)"
      "state w54 = FULL_STORM" "full_stage w54 = ''impact''"
      and all: "\<forall>n<54. \<exists>g' w'. steps mt_zero n (Storm_new \<lparr>seed = 0, drawn = 0\<rparr>) = Inr (g', w')
           \<and> state w' \<noteq> FULL_STORM \<and> state w' \<noteq> END \<and> full_stage w' = ''impact''
           \<and> rain_intensity (s w') = 0"
      and b: "steps mt_zero 55 (Storm_new \<lparr>seed = 0, drawn = 0\<rparr>) = Inr (g55, w55)"
      "full_stage w55 = ''downpour''" "rain_intensity (s w55) = 35.0"
    by blast
  from all h obtain g' w'
    where c: "steps mt_zero 53 (Storm_new \<lparr>seed = 0, drawn = 0\<rparr>) = Inr (g', w')"
      "state w' \<noteq> FULL_STORM"
    by blast
  from a b c h show ?thesis by simp
qed

subsection \<open>The fields after a step of each later sub-stage\<close>







subsection \<open>The bounded fields stay in their intervals\<close>











section \<open>Claims on every step of the run of a fresh engine\<close>



subsection \<open>Reaching the end\<close>




text \<open>\<^verbatim>\<open>run\<close> returns the engine of the first point of the trace that is in phase END.\<close>

lemma steps_END: "state (snd gw) = END \<Longrightarrow> steps mt n gw = Inr gw"
  by (induction n) (simp_all add: run_step_def)

lemma run_steps:
  "steps mt n gw = Inr gw' \<Longrightarrow> state (snd gw') = END \<Longrightarrow> run mt gw = Some (Inr gw')"
proof (induction n arbitrary: gw)
  case 0
  then show ?case by (simp add: run.simps)
next
  case (Suc n)
  show ?case
  proof (cases "state (snd gw) = END")
    case True
    with Suc.prems have "gw' = gw" by (simp add: steps_END del: steps.simps)
    with True show ?thesis by (simp add: run.simps)
  next
    case False
    with Suc.prems obtain y where y: "run_body mt gw = Inr y" and "steps mt n y = Inr gw'"
      by (auto simp: run_step_def split: sum.splits)
    with Suc.IH [of y] Suc.prems(2) have "run mt y = Some (Inr gw')" by simp
    with False y show ?thesis by (subst run.simps) simp
  qed
qed

lemma run_reaches_END:
  "reaches_END mt gw \<Longrightarrow> \<exists>gw'. run mt gw = Some (Inr gw') \<and> state (snd gw') = END"
  unfolding reaches_END_def using run_steps by blast

subsection \<open>Every sub-stage of FULL_STORM comes to an end\<close>















subsection \<open>The loop returns\<close>






end
